theory Spec2Isabelle
  imports Complex_Main
begin

section \<open>Python values, errors and the distribution objects\<close>

text \<open>
  The module \<^verbatim>\<open>dit/distconst.py\<close> is Python 2 (\<^verbatim>\<open>map\<close> and \<^verbatim>\<open>range\<close> return lists) with
  \<^verbatim>\<open>from __future__ import division\<close>, so that \<^verbatim>\<open>/\<close> is true division.  Its arguments are
  dynamically typed; the values it is called with are modelled by \<open>pyval\<close>: \<^verbatim>\<open>None\<close>,
  integers (unbounded), lists and tuples.  Lists and tuples are the sized sequences of the
  model.  Probabilities are Python floats; they are modelled by the real numbers they
  approximate, so rounding is not part of the model.
\<close>

datatype pyval = PNone | PInt int | PList "pyval list" | PTuple "pyval list"

text \<open>
  Exceptions are values.  \<open>TypeError\<close> carries its message: the two messages the module
  writes itself are kept literally, the interpreter's and NumPy's own messages are kept
  without their quotation marks and apostrophes.  \<open>InvalidDistribution\<close> is a failure of the validation of the
  distribution classes, which are not part of the module.  \<open>DanglingReference\<close> is not a
  Python exception: it is the answer of the model to a reference that denotes no object.
\<close>

datatype error = TypeError string | ZeroDivisionError | InvalidDistribution string | DanglingReference

datatype dist_class = Distribution | JointDistribution

datatype base = Linear | LogBase real

record dist =
  cls :: dist_class
  outcomes :: "pyval list"
  pmf :: "real list"
  get_base :: base

text \<open>
  Distribution objects are mutable and are passed by reference: a heap is the list of the
  objects allocated so far, and a reference is an index into it.
\<close>

type_synonym heap = "dist list"

type_synonym ref = nat

text \<open>
  Modelled from the spec: the classes \<^verbatim>\<open>Distribution\<close> (\<^verbatim>\<open>dit/npdist.py\<close>) and
  \<^verbatim>\<open>JointDistribution\<close> (\<^verbatim>\<open>dit/npjdist.py\<close>) are imported by the module and are missing from the
  sources.  The spec gives their contract: an object is constructible from
  \<^verbatim>\<open>(pmf_sequence, outcomes_sequence, base=...)\<close>, it is an ordered correspondence between the
  outcomes and the probability vector, it exposes \<^verbatim>\<open>.outcomes\<close>, \<^verbatim>\<open>.pmf\<close> (settable),
  \<^verbatim>\<open>.get_base()\<close> and \<^verbatim>\<open>__len__\<close> (the outcome count), and its validation failures (duplicate
  outcomes, length mismatch, invalid base) are its own and propagate through the module
  unchanged.  The validation is therefore a parameter \<open>validate\<close>, which returns the message
  of the failure or \<open>None\<close>; a constructor call that passes it allocates a fresh object that
  holds copies of its arguments.
\<close>

definition new_dist ::
  "(dist \<Rightarrow> string option) \<Rightarrow> dist_class \<Rightarrow> real list \<Rightarrow> pyval list \<Rightarrow> base \<Rightarrow> heap
    \<Rightarrow> error + (ref \<times> heap)" where
  "new_dist validate c p os b h =
     (let d = \<lparr>cls = c, outcomes = os, pmf = p, get_base = b\<rparr>
      in case validate d of
           Some msg \<Rightarrow> Inl (InvalidDistribution msg)
         | None \<Rightarrow> Inr (length h, h @ [d]))"

definition deref :: "heap \<Rightarrow> ref \<Rightarrow> dist option" where
  "deref h a = (if a < length h then Some (h ! a) else None)"

subsection \<open>The built-in functions the module calls\<close>

text \<open>\<^verbatim>\<open>len(x)\<close>: the length of a list or a tuple, a type error otherwise.\<close>

fun py_len :: "pyval \<Rightarrow> error + nat" where
  "py_len (PList xs) = Inr (length xs)"
| "py_len (PTuple xs) = Inr (length xs)"
| "py_len (PInt _) = Inl (TypeError ''object of type int has no len()'')"
| "py_len PNone = Inl (TypeError ''object of type NoneType has no len()'')"

text \<open>The elements of a sequence, in order (iteration over a list or a tuple).\<close>

fun py_iter :: "pyval \<Rightarrow> pyval list" where
  "py_iter (PList xs) = xs"
| "py_iter (PTuple xs) = xs"
| "py_iter _ = []"

text \<open>\<^verbatim>\<open>range(n)\<close> of Python 2: the list \<open>0, ..., n - 1\<close> (empty when \<open>n \<le> 0\<close>).\<close>

fun py_range :: "pyval \<Rightarrow> error + pyval list" where
  "py_range (PInt n) = Inr (map PInt [0..n - 1])"
| "py_range PNone = Inl (TypeError ''range() integer end argument expected, got NoneType.'')"
| "py_range (PList _) = Inl (TypeError ''range() integer end argument expected, got list.'')"
| "py_range (PTuple _) = Inl (TypeError ''range() integer end argument expected, got tuple.'')"

text \<open>\<^verbatim>\<open>int(x)\<close>.\<close>

fun py_int :: "pyval \<Rightarrow> error + int" where
  "py_int (PInt n) = Inr n"
| "py_int PNone = Inl (TypeError ''int() argument must be a string or a number, not NoneType'')"
| "py_int (PList _) = Inl (TypeError ''int() argument must be a string or a number, not list'')"
| "py_int (PTuple _) = Inl (TypeError ''int() argument must be a string or a number, not tuple'')"

text \<open>\<^verbatim>\<open>1/x\<close> under true division, for a Python integer \<open>x\<close>.\<close>

fun py_recip :: "pyval \<Rightarrow> error + real" where
  "py_recip (PInt n) = (if n = 0 then Inl ZeroDivisionError else Inr (1 / real_of_int n))"
| "py_recip _ = Inl (TypeError ''unsupported operand type(s) for /'')"

text \<open>\<^verbatim>\<open>[q] * x\<close>: \<open>x\<close> copies of \<open>q\<close>, none when \<open>x\<close> is negative.\<close>

fun py_repeat :: "'a \<Rightarrow> pyval \<Rightarrow> error + 'a list" where
  "py_repeat q (PInt n) = Inr (replicate (nat n) q)"
| "py_repeat q _ = Inl (TypeError ''cannot multiply sequence by non-int'')"

section \<open>The module\<close>

subsection \<open>\<^verbatim>\<open>uniform_distribution\<close>\<close>

text \<open>
  \<^verbatim>\<open>
  try:
      nOutcomes = len(n)
      outcomes = n
  except TypeError:
      nOutcomes = n
      outcomes = range(n)
  pmf = [1/nOutcomes] * nOutcomes
  d = Distribution(pmf, outcomes, base='linear')
  return d
  \<close>
\<close>

definition uniform_distribution ::
  "(dist \<Rightarrow> string option) \<Rightarrow> heap \<Rightarrow> pyval \<Rightarrow> error + (ref \<times> heap)" where
  "uniform_distribution validate h n =
     (case (case py_len n of
              Inr l \<Rightarrow> Inr (PInt (int l), py_iter n)
            | Inl (TypeError _) \<Rightarrow>
                (case py_range n of Inl e \<Rightarrow> Inl e | Inr r \<Rightarrow> Inr (n, r))
            | Inl e \<Rightarrow> Inl e) of
        Inl e \<Rightarrow> Inl e
      | Inr (nOutcomes, os) \<Rightarrow>
          (case py_recip nOutcomes of
             Inl e \<Rightarrow> Inl e
           | Inr q \<Rightarrow>
               (case py_repeat q nOutcomes of
                  Inl e \<Rightarrow> Inl e
                | Inr p \<Rightarrow> new_dist validate Distribution p os Linear h)))"

subsection \<open>\<^verbatim>\<open>uniform_joint_distribution\<close>\<close>

text \<open>
  \<^verbatim>\<open>map(f, xs)\<close> of Python 2 builds the list of the results, left to right; the first call
  that raises ends it.
\<close>

fun py_map :: "('a \<Rightarrow> error + 'b) \<Rightarrow> 'a list \<Rightarrow> error + 'b list" where
  "py_map f [] = Inr []"
| "py_map f (x # xs) =
     (case f x of
        Inl e \<Rightarrow> Inl e
      | Inr y \<Rightarrow> (case py_map f xs of Inl e \<Rightarrow> Inl e | Inr ys \<Rightarrow> Inr (y # ys)))"

text \<open>
  \<^verbatim>\<open>
  try:
      int(alphabet_size)
  except TypeError:
      alphabet = alphabet_size
      if len(alphabet) == 1:
          alphabet = [alphabet[0]] * word_length
      elif len(alphabet) != word_length:
          raise TypeError("word_length does not match number of rvs.")
  else:
      alphabet = [range(alphabet_size)] * word_length
  try:
      Z = np.prod(map(len, alphabet))
  except TypeError:
      raise TypeError("alphabet_size must be an int or list of lists.")
  pmf = [1/Z] * Z
  outcomes = tuple( product(*alphabet) )
  d = JointDistribution(pmf, outcomes, base='linear')
  return d
  \<close>
  \<open>word_length\<close> is an integer (a list times a negative integer is empty).
  \<^verbatim>\<open>itertools.product\<close> is \<^const>\<open>product_lists\<close>: the tuples in lexicographic order, the last
  position running fastest.  \<^verbatim>\<open>np.prod\<close> of a non-empty list of lengths is their product, a
  NumPy integer, for which \<^verbatim>\<open>1/Z\<close> does not raise at \<open>Z = 0\<close>; the list \<^verbatim>\<open>[1/Z] * Z\<close> is empty
  then.  NumPy's fixed-width result is not modelled, since it differs from the product
  only where the outcome tuple would have at least \<open>2^31\<close> entries.  \<^verbatim>\<open>np.prod\<close> of the empty
  list (no position: \<open>word_length \<le> 0\<close>, or no alphabet for \<open>word_length\<close> 0) is the float
  \<^verbatim>\<open>1.0\<close>, and \<^verbatim>\<open>[1/Z] * Z\<close> then raises the type error of a list times a float; that line is
  outside the \<^verbatim>\<open>try\<close>, so the error leaves the function as it is.
\<close>

definition uniform_joint_distribution ::
  "(dist \<Rightarrow> string option) \<Rightarrow> heap \<Rightarrow> int \<Rightarrow> pyval \<Rightarrow> error + (ref \<times> heap)" where
  "uniform_joint_distribution validate h word_length alphabet_size =
     (case (case py_int alphabet_size of
              Inl (TypeError _) \<Rightarrow>
                (case py_len alphabet_size of
                   Inl e \<Rightarrow> Inl e
                 | Inr l \<Rightarrow>
                     if l = 1 then Inr (replicate (nat word_length) (py_iter alphabet_size ! 0))
                     else if int l \<noteq> word_length
                       then Inl (TypeError ''word_length does not match number of rvs.'')
                     else Inr (py_iter alphabet_size))
            | Inl e \<Rightarrow> Inl e
            | Inr _ \<Rightarrow>
                (case py_range alphabet_size of
                   Inl e \<Rightarrow> Inl e
                 | Inr r \<Rightarrow> Inr (replicate (nat word_length) (PList r)))) of
        Inl e \<Rightarrow> Inl e
      | Inr alphabet \<Rightarrow>
          (case py_map py_len alphabet of
             Inl (TypeError _) \<Rightarrow> Inl (TypeError ''alphabet_size must be an int or list of lists.'')
           | Inl e \<Rightarrow> Inl e
           | Inr ls \<Rightarrow>
               if ls = []
                 then Inl (TypeError
                   ''cannot multiply sequence by non-int of type numpy.float64'')
               else
                 (let Z = prod_list ls;
                      p = replicate Z (1 / real Z);
                      os = map PTuple (product_lists (map py_iter alphabet))
                  in new_dist validate JointDistribution p os Linear h)))"

subsection \<open>\<^verbatim>\<open>modify_outcomes\<close>\<close>

text \<open>
  \<^verbatim>\<open>
  outcomes = map(ctor, dist.outcomes)
  d = dist.__class__(dist.pmf, outcomes, base=dist.get_base())
  return d
  \<close>
  The argument \<^verbatim>\<open>dist\<close> is a reference, \<open>dist_ref\<close>.  A reference outside the heap denotes no object; Python has no
  such reference, and the model answers \<open>DanglingReference\<close>.  \<open>ctor\<close> is a callable that
  returns an outcome or raises.
\<close>

definition modify_outcomes ::
  "(dist \<Rightarrow> string option) \<Rightarrow> heap \<Rightarrow> ref \<Rightarrow> (pyval \<Rightarrow> error + pyval) \<Rightarrow> error + (ref \<times> heap)" where
  "modify_outcomes validate h dist_ref ctor =
     (case deref h dist_ref of
        None \<Rightarrow> Inl DanglingReference
      | Some obj \<Rightarrow>
          (case py_map ctor (outcomes obj) of
             Inl e \<Rightarrow> Inl e
           | Inr os \<Rightarrow> new_dist validate (cls obj) (pmf obj) os (get_base obj) h))"

subsection \<open>\<^verbatim>\<open>random_distribution\<close> and \<^verbatim>\<open>random_joint_distribution\<close>\<close>

text \<open>
  \<^verbatim>\<open>
  if prng is None:
      prng = dit.math.prng
  d = uniform_distribution(n)
  pmf = prng.dirichlet( np.ones(len(d)) )
  d.pmf = pmf
  return d
  \<close>
  The pseudo-random source is outside the module: a generator is a state \<open>'g\<close>, its method
  \<^verbatim>\<open>dirichlet\<close> is the parameter \<open>dirichlet\<close>, which maps the state and the concentration
  vector to the sample and the next state, and \<^verbatim>\<open>dit.math.prng\<close> is the parameter
  \<open>default_prng\<close>.  The result carries the state of the generator that was used.
\<close>

definition random_distribution ::
  "(dist \<Rightarrow> string option) \<Rightarrow> ('g \<Rightarrow> real list \<Rightarrow> real list \<times> 'g) \<Rightarrow> 'g \<Rightarrow> heap \<Rightarrow> pyval
    \<Rightarrow> 'g option \<Rightarrow> error + (ref \<times> heap \<times> 'g)" where
  "random_distribution validate dirichlet default_prng h n prng =
     (let g = (case prng of None \<Rightarrow> default_prng | Some g0 \<Rightarrow> g0)
      in case uniform_distribution validate h n of
           Inl e \<Rightarrow> Inl e
         | Inr (d, h1) \<Rightarrow>
             (case deref h1 d of
                None \<Rightarrow> Inl DanglingReference
              | Some obj \<Rightarrow>
                  (let (p, g1) = dirichlet g (replicate (length (outcomes obj)) 1)
                   in Inr (d, h1[d := obj\<lparr>pmf := p\<rparr>], g1))))"

definition random_joint_distribution ::
  "(dist \<Rightarrow> string option) \<Rightarrow> ('g \<Rightarrow> real list \<Rightarrow> real list \<times> 'g) \<Rightarrow> 'g \<Rightarrow> heap \<Rightarrow> int
    \<Rightarrow> pyval \<Rightarrow> 'g option \<Rightarrow> error + (ref \<times> heap \<times> 'g)" where
  "random_joint_distribution validate dirichlet default_prng h word_length alphabet_size prng =
     (let g = (case prng of None \<Rightarrow> default_prng | Some g0 \<Rightarrow> g0)
      in case uniform_joint_distribution validate h word_length alphabet_size of
           Inl e \<Rightarrow> Inl e
         | Inr (d, h1) \<Rightarrow>
             (case deref h1 d of
                None \<Rightarrow> Inl DanglingReference
              | Some obj \<Rightarrow>
                  (let (p, g1) = dirichlet g (replicate (length (outcomes obj)) 1)
                   in Inr (d, h1[d := obj\<lparr>pmf := p\<rparr>], g1))))"

subsection \<open>A validation and a generator to run the module with\<close>

text \<open>
  Modelled from the spec: a validation as the spec describes the one of the distribution
  classes (outcomes unique, as many probabilities as outcomes, a logarithmic base positive
  and not 1).  The theorems hold for every validation; this one runs them.
\<close>

definition strict_validate :: "dist \<Rightarrow> string option" where
  "strict_validate d =
     (if length (pmf d) \<noteq> length (outcomes d) then Some ''length mismatch''
      else if \<not> distinct (outcomes d) then Some ''duplicate outcomes''
      else case get_base d of
             Linear \<Rightarrow> None
           | LogBase b \<Rightarrow> if 0 < b \<and> b \<noteq> 1 then None else Some ''invalid base'')"

text \<open>
  A stand-in for a generator: its state counts the draws, and a draw answers the corner of
  the simplex that puts all mass on the first coordinate.
\<close>

definition corner_draw :: "nat \<Rightarrow> real list \<Rightarrow> real list \<times> nat" where
  "corner_draw g alpha = (case alpha of [] \<Rightarrow> [] | a # as \<Rightarrow> 1 # map (\<lambda>_. 0) as, Suc g)"

text \<open>
  A transform to run \<^verbatim>\<open>modify_outcomes\<close> with: it joins a pair of bits into the number they
  spell, and raises on any other outcome.
\<close>

fun join_bits :: "pyval \<Rightarrow> error + pyval" where
  "join_bits (PTuple [PInt i, PInt j]) = Inr (PInt (2 * i + j))"
| "join_bits _ = Inl (TypeError ''join_bits expects a pair of integers'')"

section \<open>Properties\<close>

subsection \<open>Auxiliary facts\<close>

lemma py_len_error: "py_len x = Inl e \<Longrightarrow> \<exists>msg. e = TypeError msg"
  by (cases x) auto

lemma py_len_iter: "py_len x = Inr l \<Longrightarrow> length (py_iter x) = l"
  by (cases x) auto

lemma py_int_sequence:
  "a = PList As \<or> a = PTuple As \<Longrightarrow> \<exists>msg. py_int a = Inl (TypeError msg)"
  by auto

lemma py_map_len_fails:
  "\<exists>x\<in>set xs. \<forall>m. py_len x \<noteq> Inr m \<Longrightarrow> \<exists>msg. py_map py_len xs = Inl (TypeError msg)"
proof (induction xs)
  case Nil
  then show ?case by simp
next
  case (Cons x xs)
  show ?case
  proof (cases "py_len x")
    case (Inl e)
    then show ?thesis using py_len_error [OF Inl] by auto
  next
    case (Inr l)
    with Cons.prems have "\<exists>x\<in>set xs. \<forall>m. py_len x \<noteq> Inr m" by auto
    from Cons.IH [OF this] Inr show ?thesis by auto
  qed
qed

lemma py_map_len_sized:
  "py_map py_len xs = Inr ls \<Longrightarrow> ls = map (length \<circ> py_iter) xs"
proof (induction xs arbitrary: ls)
  case Nil
  then show ?case by simp
next
  case (Cons x xs)
  then show ?case
    by (auto split: sum.splits simp add: py_len_iter)
qed

lemma py_map_len_replicate:
  "py_len A = Inr m \<Longrightarrow> py_map py_len (replicate k A) = Inr (replicate k m)"
  by (induction k) auto

lemma length_product_lists_prod:
  "length (product_lists xss) = prod_list (map length xss)"
  by (induction xss) (auto simp add: length_concat o_def sum_list_triv)

lemma py_map_total:
  "\<forall>x\<in>set xs. ctor x = Inr (f x) \<Longrightarrow> py_map ctor xs = Inr (map f xs)"
  by (induction xs) auto

lemma new_dist_result:
  "new_dist validate c p os b h = Inr (a, h') \<Longrightarrow>
     a = length h \<and> h' = h @ [\<lparr>cls = c, outcomes = os, pmf = p, get_base = b\<rparr>]"
  by (auto simp add: new_dist_def Let_def split: option.splits)

lemma uniform_distribution_alloc:
  "uniform_distribution validate h n = Inr (a, h') \<Longrightarrow> a = length h \<and> (\<exists>d. h' = h @ [d])"
  by (auto simp add: uniform_distribution_def split: sum.splits error.splits prod.splits
      dest!: new_dist_result)

lemma uniform_joint_distribution_alloc:
  "uniform_joint_distribution validate h L k = Inr (a, h') \<Longrightarrow>
     a = length h \<and> (\<exists>d. h' = h @ [d])"
  by (auto simp add: uniform_joint_distribution_def Let_def
      split: sum.splits error.splits prod.splits if_splits
      dest!: new_dist_result)

lemma product_lists_map:
  "product_lists (map (map f) xss) = map (map f) (product_lists xss)"
  by (induction xss) (simp_all add: map_concat o_def)

lemma set_product_lists_replicate:
  "set (product_lists (replicate n xs)) = {w. length w = n \<and> set w \<subseteq> set xs}"
proof (induction n)
  case 0
  then show ?case by auto
next
  case (Suc n)
  have "{w. length w = Suc n \<and> set w \<subseteq> set xs} =
        (\<Union>x\<in>set xs. (#) x ` {w. length w = n \<and> set w \<subseteq> set xs})"
    by (auto simp add: length_Suc_conv)
  with Suc show ?case by simp
qed

lemma sorted_wrt_lexord_blocks:
  fixes xs :: "'a::linorder list"
  assumes "sorted_wrt (<) xs"
    and "sorted_wrt (\<lambda>v w. (v, w) \<in> lexord {(x, y). x < y}) ws"
  shows "sorted_wrt (\<lambda>v w. (v, w) \<in> lexord {(x, y). x < y})
           (concat (map (\<lambda>x. map ((#) x) ws) xs))"
  using assms(1)
proof (induction xs)
  case Nil
  then show ?case by simp
next
  case (Cons x xs)
  have "sorted_wrt (\<lambda>v w. (v, w) \<in> lexord {(x, y). x < y}) (map ((#) x) ws)"
    using assms(2) by (simp add: sorted_wrt_map)
  with Cons show ?case
    by (auto simp add: sorted_wrt_append)
qed

lemma sorted_wrt_lexord_product_lists:
  fixes xss :: "'a::linorder list list"
  assumes "\<forall>xs\<in>set xss. sorted_wrt (<) xs"
  shows "sorted_wrt (\<lambda>v w. (v, w) \<in> lexord {(x, y). x < y}) (product_lists xss)"
  using assms
  by (induction xss) (simp_all add: sorted_wrt_lexord_blocks)

lemma length_product_lists_replicate:
  "length (product_lists (replicate n xs)) = length xs ^ n"
  by (simp add: length_product_lists_prod)

subsection \<open>\<^verbatim>\<open>uniform_distribution\<close>\<close>

text \<open>
  Claim C1.  For every integer \<open>n > 0\<close>, \<^verbatim>\<open>uniform_distribution(n)\<close> returns a fresh
  \<^verbatim>\<open>Distribution\<close> (whenever the constructor's validation accepts it) with exactly \<open>n\<close>
  outcomes, the integers \<open>0, ..., n - 1\<close> in order (the outcome at index \<open>i\<close> is \<open>i\<close>), each
  with probability \<open>1/n\<close>, with linear base; the probabilities sum to 1 (exactly, in the
  real numbers of the model).
\<close>

theorem uniform_distribution_count:
  assumes "0 < n"
    and "validate \<lparr>cls = Distribution, outcomes = map PInt [0..n - 1],
           pmf = replicate (nat n) (1 / real_of_int n), get_base = Linear\<rparr> = None"
  shows "uniform_distribution validate h (PInt n) =
           Inr (length h, h @ [\<lparr>cls = Distribution, outcomes = map PInt [0..n - 1],
             pmf = replicate (nat n) (1 / real_of_int n), get_base = Linear\<rparr>])
         \<and> length (map PInt [0..n - 1]) = nat n
         \<and> (\<forall>i < nat n. map PInt [0..n - 1] ! i = PInt (int i))
         \<and> sum_list (replicate (nat n) (1 / real_of_int n)) = 1"
proof -
  have "uniform_distribution validate h (PInt n) =
           Inr (length h, h @ [\<lparr>cls = Distribution, outcomes = map PInt [0..n - 1],
             pmf = replicate (nat n) (1 / real_of_int n), get_base = Linear\<rparr>])"
    using assms by (simp add: uniform_distribution_def new_dist_def)
  moreover have "sum_list (replicate (nat n) (1 / real_of_int n)) = 1"
    using assms(1) by (simp add: sum_list_replicate)
  moreover have "\<forall>i < nat n. map PInt [0..n - 1] ! i = PInt (int i)"
    using assms(1) by auto
  ultimately show ?thesis using assms(1) by simp
qed

theorem uniform_distribution_count_witness:
  "uniform_distribution strict_validate [] (PInt 3) =
     Inr (0, [\<lparr>cls = Distribution, outcomes = [PInt 0, PInt 1, PInt 2],
                pmf = [1 / 3, 1 / 3, 1 / 3], get_base = Linear\<rparr>])"
proof -
  have v: "strict_validate \<lparr>cls = Distribution, outcomes = map PInt [0..3 - 1],
           pmf = replicate (nat 3) (1 / real_of_int 3), get_base = Linear\<rparr> = None"
    by (simp add: strict_validate_def upto_rec1 numeral_3_eq_3)
  show ?thesis
    using uniform_distribution_count [of 3 strict_validate "[]", OF _ v]
    by (simp add: upto_rec1 numeral_3_eq_3)
qed

text \<open>
  Claim C9.  Given the integer 0 or an empty sequence, \<^verbatim>\<open>uniform_distribution\<close> raises
  \<^verbatim>\<open>ZeroDivisionError\<close>, whatever the validation of the constructor is: \<^verbatim>\<open>1/nOutcomes\<close> is
  computed before the constructor is called and is not guarded.  For an integer \<open>k > 0\<close> and
  for a non-empty sequence the call does not end in that error.
\<close>

theorem uniform_distribution_zero:
  "uniform_distribution validate h (PInt 0) = Inl ZeroDivisionError
   \<and> uniform_distribution validate h (PList []) = Inl ZeroDivisionError
   \<and> uniform_distribution validate h (PTuple []) = Inl ZeroDivisionError
   \<and> (0 < k \<longrightarrow> uniform_distribution validate h (PInt k) \<noteq> Inl ZeroDivisionError)
   \<and> (S \<noteq> [] \<longrightarrow> uniform_distribution validate h (PList S) \<noteq> Inl ZeroDivisionError
        \<and> uniform_distribution validate h (PTuple S) \<noteq> Inl ZeroDivisionError)"
  by (auto simp add: uniform_distribution_def new_dist_def Let_def split: option.splits)

theorem uniform_distribution_zero_witness:
  "uniform_distribution strict_validate [] (PInt 0) = Inl ZeroDivisionError
   \<and> uniform_distribution strict_validate [] (PList []) = Inl ZeroDivisionError
   \<and> uniform_distribution strict_validate [] (PTuple []) = Inl ZeroDivisionError
   \<and> (0::int) < 3 \<and> uniform_distribution strict_validate [] (PInt 3) \<noteq> Inl ZeroDivisionError
   \<and> [PNone] \<noteq> [] \<and> uniform_distribution strict_validate [] (PList [PNone]) \<noteq> Inl ZeroDivisionError
   \<and> uniform_distribution strict_validate [] (PTuple [PNone]) \<noteq> Inl ZeroDivisionError"
  using uniform_distribution_zero [of strict_validate "[]" 3 "[PNone]"] by simp



subsection \<open>\<^verbatim>\<open>uniform_joint_distribution\<close>\<close>

text \<open>
  Claim C3, as amended.  For every positive \<open>word_length\<close> \<open>L\<close> and every integer
  \<open>alphabet_size\<close> \<open>k \<ge> 0\<close>, \<^verbatim>\<open>uniform_joint_distribution(L, k)\<close> returns a fresh
  \<^verbatim>\<open>JointDistribution\<close> (whenever the constructor's validation accepts it) whose outcomes are
  the tuples of the words over \<open>0, ..., k - 1\<close> of length \<open>L\<close>: all of them, in strictly
  increasing lexicographic order, \<open>k ^ L\<close> in number, each with probability \<open>1 / k ^ L\<close>, with
  linear base.  The claim as stated, for every integer \<open>k\<close>, fails at \<open>k = -1\<close>, \<open>L = 2\<close>:
  \<^verbatim>\<open>range(-1)\<close> is empty, so there is no outcome, and \<open>k ^ L = 1\<close>.
\<close>

theorem uniform_joint_distribution_count:
  assumes "0 < L" and "0 \<le> k"
    and "validate \<lparr>cls = JointDistribution,
           outcomes = map (\<lambda>w. PTuple (map PInt w)) (product_lists (replicate (nat L) [0..k - 1])),
           pmf = replicate (nat (k ^ nat L)) (1 / real_of_int (k ^ nat L)),
           get_base = Linear\<rparr> = None"
  shows "uniform_joint_distribution validate h L (PInt k) =
           Inr (length h, h @ [\<lparr>cls = JointDistribution,
             outcomes = map (\<lambda>w. PTuple (map PInt w))
               (product_lists (replicate (nat L) [0..k - 1])),
             pmf = replicate (nat (k ^ nat L)) (1 / real_of_int (k ^ nat L)),
             get_base = Linear\<rparr>])
         \<and> set (product_lists (replicate (nat L) [0..k - 1])) =
             {w. length w = nat L \<and> set w \<subseteq> {0..<k}}
         \<and> sorted_wrt (\<lambda>v w. (v, w) \<in> lexord {(x, y). x < y})
             (product_lists (replicate (nat L) [0..k - 1]))
         \<and> length (product_lists (replicate (nat L) [0..k - 1])) = nat (k ^ nat L)"
proof -
  define al where "al = replicate (nat L) (PList (map PInt [0..k - 1]))"
  define Z where "Z = prod_list (replicate (nat L) (nat k))"
  have ls: "py_map py_len al = Inr (replicate (nat L) (nat k))"
    unfolding al_def by (rule py_map_len_replicate) simp
  have z: "Z = nat (k ^ nat L)"
    using assms(2) by (simp add: Z_def nat_power_eq)
  have q: "real (nat (k ^ nat L)) = real_of_int (k ^ nat L)"
    using assms(2) by simp
  have os: "map PTuple (product_lists (map py_iter al)) =
      map (\<lambda>w. PTuple (map PInt w)) (product_lists (replicate (nat L) [0..k - 1]))"
    using product_lists_map [of PInt "replicate (nat L) [0..k - 1]"] by (simp add: al_def)
  have ne: "(replicate (nat L) (nat k) = []) = False"
    using assms(1) by simp
  have "uniform_joint_distribution validate h L (PInt k) =
      new_dist validate JointDistribution (replicate Z (1 / real Z))
        (map PTuple (product_lists (map py_iter al))) Linear h"
    unfolding uniform_joint_distribution_def py_int.simps py_range.simps sum.case
      al_def [symmetric] ls ne if_False Let_def Z_def ..
  also have "\<dots> = new_dist validate JointDistribution
      (replicate (nat (k ^ nat L)) (1 / real_of_int (k ^ nat L)))
      (map (\<lambda>w. PTuple (map PInt w)) (product_lists (replicate (nat L) [0..k - 1]))) Linear h"
    by (simp only: z q os)
  also have "\<dots> = Inr (length h, h @ [\<lparr>cls = JointDistribution,
             outcomes = map (\<lambda>w. PTuple (map PInt w))
               (product_lists (replicate (nat L) [0..k - 1])),
             pmf = replicate (nat (k ^ nat L)) (1 / real_of_int (k ^ nat L)),
             get_base = Linear\<rparr>])"
    by (simp only: new_dist_def Let_def assms(3) option.case)
  finally have "uniform_joint_distribution validate h L (PInt k) =
           Inr (length h, h @ [\<lparr>cls = JointDistribution,
             outcomes = map (\<lambda>w. PTuple (map PInt w))
               (product_lists (replicate (nat L) [0..k - 1])),
             pmf = replicate (nat (k ^ nat L)) (1 / real_of_int (k ^ nat L)),
             get_base = Linear\<rparr>])" .
  moreover have "set (product_lists (replicate (nat L) [0..k - 1])) =
             {w. length w = nat L \<and> set w \<subseteq> {0..<k}}"
    by (auto simp add: set_product_lists_replicate)
  moreover have "sorted_wrt (\<lambda>v w. (v, w) \<in> lexord {(x, y). x < y})
             (product_lists (replicate (nat L) [0..k - 1]))"
    by (rule sorted_wrt_lexord_product_lists) simp
  moreover have "length (product_lists (replicate (nat L) [0..k - 1])) = nat (k ^ nat L)"
    using assms(2) by (simp add: length_product_lists_replicate nat_power_eq)
  ultimately show ?thesis by blast
qed

theorem uniform_joint_distribution_count_witness:
  "uniform_joint_distribution strict_validate [] 2 (PInt 2) =
     Inr (0, [\<lparr>cls = JointDistribution,
                outcomes = [PTuple [PInt 0, PInt 0], PTuple [PInt 0, PInt 1],
                            PTuple [PInt 1, PInt 0], PTuple [PInt 1, PInt 1]],
                pmf = [1 / 4, 1 / 4, 1 / 4, 1 / 4], get_base = Linear\<rparr>])"
proof -
  have r4: "replicate 4 y = [y, y, y, y]" for y :: "'b"
    by (simp add: numeral_eq_Suc)
  have p: "product_lists (replicate (nat 2) [0..2 - 1]) = [[0, 0], [0, 1], [1, 0], [1, 1 :: int]]"
    by (simp add: numeral_2_eq_2 upto_rec1)
  have v: "strict_validate \<lparr>cls = JointDistribution,
           outcomes = map (\<lambda>w. PTuple (map PInt w)) (product_lists (replicate (nat 2) [0..2 - 1])),
           pmf = replicate (nat (2 ^ nat 2)) (1 / real_of_int (2 ^ nat 2)),
           get_base = Linear\<rparr> = None"
    unfolding p by (simp add: strict_validate_def r4)
  show ?thesis
    using uniform_joint_distribution_count [of 2 2 strict_validate "[]"] v
    unfolding p by (simp add: r4)
qed

theorem uniform_joint_distribution_count_counterexample:
  "uniform_joint_distribution (\<lambda>d. None) [] 2 (PInt (- 1)) =
     Inr (0, [\<lparr>cls = JointDistribution, outcomes = [], pmf = [], get_base = Linear\<rparr>])
   \<and> uniform_joint_distribution strict_validate [] 2 (PInt (- 1)) =
     Inr (0, [\<lparr>cls = JointDistribution, outcomes = [], pmf = [], get_base = Linear\<rparr>])
   \<and> length ([] :: pyval list) \<noteq> nat ((- 1) ^ 2)"
  by (simp add: uniform_joint_distribution_def new_dist_def strict_validate_def numeral_2_eq_2)

text \<open>
  Claim C6.  For every positive \<open>word_length\<close> \<open>L\<close> and every list (or tuple) that holds
  exactly one alphabet \<open>A\<close> of \<open>m\<close> symbols, \<^verbatim>\<open>uniform_joint_distribution\<close> uses \<open>A\<close> at all \<open>L\<close>
  positions: the outcomes are the tuples of the product of \<open>L\<close> copies of \<open>A\<close>, there are
  \<open>m ^ L\<close> of them, each with probability \<open>1 / m ^ L\<close>.  A list of \<open>L\<close> alphabets is used as it
  is, one alphabet for each position.  (Both whenever the constructor's validation accepts
  the distribution.)  \<^verbatim>\<open>uniform_joint_distribution(3, [[0,1]])\<close> has \<open>2 ^ 3 = 8\<close> outcomes of
  probability \<open>1/8\<close>.  For \<open>L \<le> 0\<close> the single alphabet is copied to no position, and the call
  raises the type error of a list times a float.
\<close>

theorem uniform_joint_distribution_broadcast:
  "(0 < L \<and> (a = PList [A] \<or> a = PTuple [A]) \<and> py_len A = Inr m
     \<and> validate \<lparr>cls = JointDistribution,
          outcomes = map PTuple (product_lists (replicate (nat L) (py_iter A))),
          pmf = replicate (m ^ nat L) (1 / real (m ^ nat L)), get_base = Linear\<rparr> = None
    \<longrightarrow> uniform_joint_distribution validate h L a =
          Inr (length h, h @ [\<lparr>cls = JointDistribution,
            outcomes = map PTuple (product_lists (replicate (nat L) (py_iter A))),
            pmf = replicate (m ^ nat L) (1 / real (m ^ nat L)), get_base = Linear\<rparr>])
        \<and> length (product_lists (replicate (nat L) (py_iter A))) = m ^ nat L)
   \<and> (0 < L \<and> (a = PList As \<or> a = PTuple As) \<and> int (length As) = L
     \<and> py_map py_len As = Inr ls
     \<and> validate \<lparr>cls = JointDistribution,
          outcomes = map PTuple (product_lists (map py_iter As)),
          pmf = replicate (prod_list ls) (1 / real (prod_list ls)), get_base = Linear\<rparr> = None
    \<longrightarrow> uniform_joint_distribution validate h L a =
          Inr (length h, h @ [\<lparr>cls = JointDistribution,
            outcomes = map PTuple (product_lists (map py_iter As)),
            pmf = replicate (prod_list ls) (1 / real (prod_list ls)), get_base = Linear\<rparr>])
        \<and> length (product_lists (map py_iter As)) = prod_list ls)
   \<and> (L \<le> 0 \<and> (a = PList [A] \<or> a = PTuple [A])
    \<longrightarrow> uniform_joint_distribution validate h L a =
          Inl (TypeError ''cannot multiply sequence by non-int of type numpy.float64''))"
proof (intro conjI impI)
  assume p: "0 < L \<and> (a = PList [A] \<or> a = PTuple [A]) \<and> py_len A = Inr m
     \<and> validate \<lparr>cls = JointDistribution,
          outcomes = map PTuple (product_lists (replicate (nat L) (py_iter A))),
          pmf = replicate (m ^ nat L) (1 / real (m ^ nat L)), get_base = Linear\<rparr> = None"
  then have "py_map py_len (replicate (nat L) A) = Inr (replicate (nat L) m)"
    by (simp add: py_map_len_replicate)
  with p show "uniform_joint_distribution validate h L a =
          Inr (length h, h @ [\<lparr>cls = JointDistribution,
            outcomes = map PTuple (product_lists (replicate (nat L) (py_iter A))),
            pmf = replicate (m ^ nat L) (1 / real (m ^ nat L)), get_base = Linear\<rparr>])"
    by (auto simp add: uniform_joint_distribution_def new_dist_def)
  from p show "length (product_lists (replicate (nat L) (py_iter A))) = m ^ nat L"
    by (simp add: length_product_lists_prod py_len_iter)
next
  assume p: "0 < L \<and> (a = PList As \<or> a = PTuple As) \<and> int (length As) = L
     \<and> py_map py_len As = Inr ls
     \<and> validate \<lparr>cls = JointDistribution,
          outcomes = map PTuple (product_lists (map py_iter As)),
          pmf = replicate (prod_list ls) (1 / real (prod_list ls)), get_base = Linear\<rparr> = None"
  have one: "replicate (nat L) (As ! 0) = As" if "length As = 1"
  proof -
    from that obtain x where "As = [x]" by (cases As) auto
    with p show ?thesis by auto
  qed
  from p have "ls = map (length \<circ> py_iter) As" and "As \<noteq> []"
    by (auto dest: py_map_len_sized)
  then have ne: "ls \<noteq> []" by simp
  from p one ne show "uniform_joint_distribution validate h L a =
          Inr (length h, h @ [\<lparr>cls = JointDistribution,
            outcomes = map PTuple (product_lists (map py_iter As)),
            pmf = replicate (prod_list ls) (1 / real (prod_list ls)), get_base = Linear\<rparr>])"
    by (auto simp add: uniform_joint_distribution_def new_dist_def Let_def)
  from p show "length (product_lists (map py_iter As)) = prod_list ls"
    by (auto simp add: length_product_lists_prod dest: py_map_len_sized)
next
  assume "L \<le> 0 \<and> (a = PList [A] \<or> a = PTuple [A])"
  then show "uniform_joint_distribution validate h L a =
          Inl (TypeError ''cannot multiply sequence by non-int of type numpy.float64'')"
    by (auto simp add: uniform_joint_distribution_def)
qed

theorem uniform_joint_distribution_broadcast_witness:
  "uniform_joint_distribution strict_validate [] 3 (PList [PList [PInt 0, PInt 1]]) =
     Inr (0, [\<lparr>cls = JointDistribution,
       outcomes = [PTuple [PInt 0, PInt 0, PInt 0], PTuple [PInt 0, PInt 0, PInt 1],
                   PTuple [PInt 0, PInt 1, PInt 0], PTuple [PInt 0, PInt 1, PInt 1],
                   PTuple [PInt 1, PInt 0, PInt 0], PTuple [PInt 1, PInt 0, PInt 1],
                   PTuple [PInt 1, PInt 1, PInt 0], PTuple [PInt 1, PInt 1, PInt 1]],
       pmf = [1 / 8, 1 / 8, 1 / 8, 1 / 8, 1 / 8, 1 / 8, 1 / 8, 1 / 8], get_base = Linear\<rparr>])
   \<and> uniform_joint_distribution strict_validate []  2
       (PList [PList [PInt 0, PInt 1], PList [PInt 1, PInt 2]]) =
     Inr (0, [\<lparr>cls = JointDistribution,
       outcomes = [PTuple [PInt 0, PInt 1], PTuple [PInt 0, PInt 2],
                   PTuple [PInt 1, PInt 1], PTuple [PInt 1, PInt 2]],
       pmf = [1 / 4, 1 / 4, 1 / 4, 1 / 4], get_base = Linear\<rparr>])
   \<and> uniform_joint_distribution strict_validate [] 0 (PList [PList [PInt 0, PInt 1]]) =
     Inl (TypeError ''cannot multiply sequence by non-int of type numpy.float64'')"
proof -
  have r3: "replicate 3 x = [x, x, x]" and r8: "replicate 8 y = [y, y, y, y, y, y, y, y]"
    and r4: "replicate 4 y = [y, y, y, y]" for x :: "'a" and y :: "'b"
    by (simp_all add: numeral_eq_Suc)
  have v1: "strict_validate \<lparr>cls = JointDistribution,
          outcomes = map PTuple (product_lists (replicate (nat 3) (py_iter (PList [PInt 0, PInt 1])))),
          pmf = replicate (2 ^ nat 3) (1 / real (2 ^ nat 3)), get_base = Linear\<rparr> = None"
    by (simp add: strict_validate_def r3 r8)
  have v2: "strict_validate \<lparr>cls = JointDistribution,
          outcomes = map PTuple (product_lists (map py_iter [PList [PInt 0, PInt 1], PList [PInt 1, PInt 2]])),
          pmf = replicate (prod_list [2, 2]) (1 / real (prod_list [2, 2])), get_base = Linear\<rparr> = None"
    by (simp add: strict_validate_def r4)
  show ?thesis
    using uniform_joint_distribution_broadcast
      [where L = 3 and a = "PList [PList [PInt 0, PInt 1]]" and A = "PList [PInt 0, PInt 1]"
        and m = 2 and validate = strict_validate and h = "[]"
        and As = "[PList [PInt 0, PInt 1]]" and ls = "[2]"]
      uniform_joint_distribution_broadcast
      [where L = 2 and a = "PList [PList [PInt 0, PInt 1], PList [PInt 1, PInt 2]]"
        and A = PNone and m = 0 and validate = strict_validate and h = "[]"
        and As = "[PList [PInt 0, PInt 1], PList [PInt 1, PInt 2]]" and ls = "[2, 2]"]
      uniform_joint_distribution_broadcast
      [where L = 0 and a = "PList [PList [PInt 0, PInt 1]]" and A = "PList [PInt 0, PInt 1]"
        and m = 2 and validate = strict_validate and h = "[]"
        and As = "[PList [PInt 0, PInt 1]]" and ls = "[2]"]
      v1 v2
    by (simp add: r3 r8 r4)
qed

text \<open>
  Claim C7.  For every \<open>word_length\<close> \<open>L\<close> and every supplied list (or tuple) of alphabets
  whose length is neither 1 nor \<open>L\<close>, \<^verbatim>\<open>uniform_joint_distribution\<close> raises the type error
  with the message \<^verbatim>\<open>word_length does not match number of rvs.\<close> and returns no
  distribution, whatever the alphabets and the validation are; so it does at
  \<^verbatim>\<open>uniform_joint_distribution(2, [[0,1],[1,2],[3,4]])\<close>.
\<close>

theorem uniform_joint_distribution_shape_mismatch:
  assumes "a = PList As \<or> a = PTuple As"
    and "length As \<noteq> 1"
    and "int (length As) \<noteq> L"
  shows "uniform_joint_distribution validate h L a =
           Inl (TypeError ''word_length does not match number of rvs.'')"
  using assms by (auto simp add: uniform_joint_distribution_def)

theorem uniform_joint_distribution_shape_mismatch_witness:
  "uniform_joint_distribution strict_validate [] 2
     (PList [PList [PInt 0, PInt 1], PList [PInt 1, PInt 2], PList [PInt 3, PInt 4]]) =
   Inl (TypeError ''word_length does not match number of rvs.'')"
  using uniform_joint_distribution_shape_mismatch
    [of "PList [PList [PInt 0, PInt 1], PList [PInt 1, PInt 2], PList [PInt 3, PInt 4]]"
        "[PList [PInt 0, PInt 1], PList [PInt 1, PInt 2], PList [PInt 3, PInt 4]]"
        2 strict_validate "[]"]
  by simp

text \<open>
  Claim C8, as amended.  For every positive \<open>word_length\<close> \<open>L\<close> and every list (or tuple)
  whose length is 1 or \<open>L\<close> and that has an element without a length,
  \<^verbatim>\<open>uniform_joint_distribution\<close> raises the type error with the message
  \<^verbatim>\<open>alphabet_size must be an int or list of lists.\<close>  The claim as stated, for every
  argument that is neither an integer nor a list of lists, fails: the list \<^verbatim>\<open>[1, 2, 3]\<close> is
  not coercible to an integer and none of its elements is sized, and with \<open>word_length\<close> 2
  the shape check, which comes first, raises the other message.
\<close>

theorem uniform_joint_distribution_not_lists:
  assumes "a = PList As \<or> a = PTuple As"
    and "0 < L"
    and "length As = 1 \<or> int (length As) = L"
    and "\<exists>x\<in>set As. \<forall>m. py_len x \<noteq> Inr m"
  shows "uniform_joint_distribution validate h L a =
           Inl (TypeError ''alphabet_size must be an int or list of lists.'')"
proof -
  obtain msg where i: "py_int a = Inl (TypeError msg)"
    using py_int_sequence [OF assms(1)] by blast
  have l: "py_len a = Inr (length As)" and it: "py_iter a = As"
    using assms(1) by auto
  define alphabet where
    "alphabet = (if length As = 1 then replicate (nat L) (As ! 0) else As)"
  have "\<exists>x\<in>set alphabet. \<forall>m. py_len x \<noteq> Inr m"
  proof (cases "length As = 1")
    case True
    then obtain x where "As = [x]" by (cases As) auto
    with assms(2,4) True show ?thesis by (auto simp add: alphabet_def)
  next
    case False
    with assms(4) show ?thesis by (simp add: alphabet_def)
  qed
  then obtain msg' where m: "py_map py_len alphabet = Inl (TypeError msg')"
    using py_map_len_fails by blast
  show ?thesis
    using assms(3) i l it m
    by (auto simp add: uniform_joint_distribution_def alphabet_def)
qed

theorem uniform_joint_distribution_not_lists_witness:
  "uniform_joint_distribution strict_validate [] 2 (PList [PInt 1, PInt 2]) =
     Inl (TypeError ''alphabet_size must be an int or list of lists.'')"
  using uniform_joint_distribution_not_lists
    [of "PList [PInt 1, PInt 2]" "[PInt 1, PInt 2]" 2 strict_validate "[]"]
  by simp

theorem uniform_joint_distribution_not_lists_counterexample:
  "isl (py_int (PList [PInt 1, PInt 2, PInt 3]))
   \<and> isl (py_len (PInt 1)) \<and> isl (py_len (PInt 2)) \<and> isl (py_len (PInt 3))
   \<and> uniform_joint_distribution strict_validate [] 2 (PList [PInt 1, PInt 2, PInt 3]) =
       Inl (TypeError ''word_length does not match number of rvs.'')
   \<and> uniform_joint_distribution strict_validate [] 2 (PList [PInt 1, PInt 2, PInt 3]) \<noteq>
       Inl (TypeError ''alphabet_size must be an int or list of lists.'')"
  by (simp add: uniform_joint_distribution_def)

subsection \<open>\<^verbatim>\<open>modify_outcomes\<close>\<close>

text \<open>
  Claim C4.  For every distribution object (of either class) and every transform \<open>ctor\<close>
  that returns \<open>f x\<close> on each outcome \<open>x\<close> of the object, \<^verbatim>\<open>modify_outcomes(dist, ctor)\<close>
  returns a fresh object (whenever the constructor's validation accepts it) of the class
  of \<open>dist\<close>, whose outcomes are \<open>f\<close> of the outcomes of \<open>dist\<close> in the same order, with the
  probability vector and the base of \<open>dist\<close>.  The class is read from the object: a
  \<^verbatim>\<open>JointDistribution\<close> gives a \<^verbatim>\<open>JointDistribution\<close>.
\<close>

theorem modify_outcomes_map:
  assumes "a < length h"
    and "\<forall>x\<in>set (outcomes (h ! a)). ctor x = Inr (f x)"
    and "validate \<lparr>cls = cls (h ! a), outcomes = map f (outcomes (h ! a)),
           pmf = pmf (h ! a), get_base = get_base (h ! a)\<rparr> = None"
  shows "modify_outcomes validate h a ctor =
           Inr (length h, h @ [\<lparr>cls = cls (h ! a), outcomes = map f (outcomes (h ! a)),
             pmf = pmf (h ! a), get_base = get_base (h ! a)\<rparr>])"
proof -
  have "py_map ctor (outcomes (h ! a)) = Inr (map f (outcomes (h ! a)))"
    using assms(2) by (rule py_map_total)
  with assms(1,3) show ?thesis
    by (simp add: modify_outcomes_def deref_def new_dist_def)
qed

theorem modify_outcomes_map_witness:
  "modify_outcomes strict_validate
     [\<lparr>cls = JointDistribution,
        outcomes = [PTuple [PInt 0, PInt 0], PTuple [PInt 0, PInt 1],
                    PTuple [PInt 1, PInt 0], PTuple [PInt 1, PInt 1]],
        pmf = [1 / 4, 1 / 4, 1 / 4, 1 / 4], get_base = LogBase 2\<rparr>] 0 join_bits =
   Inr (1, [\<lparr>cls = JointDistribution,
        outcomes = [PTuple [PInt 0, PInt 0], PTuple [PInt 0, PInt 1],
                    PTuple [PInt 1, PInt 0], PTuple [PInt 1, PInt 1]],
        pmf = [1 / 4, 1 / 4, 1 / 4, 1 / 4], get_base = LogBase 2\<rparr>,
      \<lparr>cls = JointDistribution, outcomes = [PInt 0, PInt 1, PInt 2, PInt 3],
        pmf = [1 / 4, 1 / 4, 1 / 4, 1 / 4], get_base = LogBase 2\<rparr>])"
  using modify_outcomes_map
    [of 0 "[\<lparr>cls = JointDistribution,
        outcomes = [PTuple [PInt 0, PInt 0], PTuple [PInt 0, PInt 1],
                    PTuple [PInt 1, PInt 0], PTuple [PInt 1, PInt 1]],
        pmf = [1 / 4, 1 / 4, 1 / 4, 1 / 4], get_base = LogBase 2\<rparr>]"
      join_bits "\<lambda>x. case join_bits x of Inr y \<Rightarrow> y | Inl _ \<Rightarrow> PNone" strict_validate]
  by (simp add: strict_validate_def)

text \<open>
  Claim C10.  \<^verbatim>\<open>modify_outcomes(dist, ctor)\<close> leaves its input unchanged: when it returns,
  the result is a fresh reference, different from \<open>dist\<close>, every object of the heap before
  the call is the same after it, and so are the outcomes, the probability vector, the base
  and the class of \<open>dist\<close>.  (A call that raises returns no heap: it has allocated nothing.)
\<close>

theorem modify_outcomes_frame:
  assumes "modify_outcomes validate h a ctor = Inr (b, h')"
  shows "a < length h \<and> b = length h \<and> b \<noteq> a \<and> length h' = Suc (length h)
         \<and> (\<forall>i < length h. h' ! i = h ! i)
         \<and> outcomes (h' ! a) = outcomes (h ! a) \<and> pmf (h' ! a) = pmf (h ! a)
         \<and> get_base (h' ! a) = get_base (h ! a) \<and> cls (h' ! a) = cls (h ! a)"
proof -
  from assms have a: "a < length h"
    by (auto simp add: modify_outcomes_def deref_def split: if_splits)
  from assms obtain d where "b = length h" and h': "h' = h @ [d]"
    by (auto simp add: modify_outcomes_def deref_def split: if_splits sum.splits
        dest!: new_dist_result)
  with a show ?thesis by (simp add: nth_append)
qed

theorem modify_outcomes_frame_witness:
  "let h = [\<lparr>cls = Distribution, outcomes = [PTuple [PInt 1, PInt 0], PTuple [PInt 1, PInt 1]],
             pmf = [1 / 3, 2 / 3], get_base = Linear\<rparr>];
       h' = h @ [\<lparr>cls = Distribution, outcomes = [PInt 2, PInt 3],
             pmf = [1 / 3, 2 / 3], get_base = Linear\<rparr>]
   in modify_outcomes strict_validate h 0 join_bits = Inr (1, h')
      \<and> h' ! 0 = h ! 0 \<and> outcomes (h' ! 0) = [PTuple [PInt 1, PInt 0], PTuple [PInt 1, PInt 1]]"
proof -
  define h where "h = [\<lparr>cls = Distribution,
    outcomes = [PTuple [PInt 1, PInt 0], PTuple [PInt 1, PInt 1]],
    pmf = [1 / 3, 2 / 3], get_base = Linear\<rparr>]"
  define h' where "h' = h @ [\<lparr>cls = Distribution, outcomes = [PInt 2, PInt 3],
             pmf = [1 / 3, 2 / 3], get_base = Linear\<rparr>]"
  have m: "modify_outcomes strict_validate h 0 join_bits = Inr (1, h')"
    by (simp add: modify_outcomes_def deref_def new_dist_def strict_validate_def h_def h'_def)
  from modify_outcomes_frame [OF m] have "\<forall>i < length h. h' ! i = h ! i"
    and "outcomes (h' ! 0) = outcomes (h ! 0)" by simp_all
  then have "h' ! 0 = h ! 0" and "outcomes (h' ! 0) = [PTuple [PInt 1, PInt 0], PTuple [PInt 1, PInt 1]]"
    by (simp_all add: h_def)
  with m show ?thesis unfolding h_def h'_def by (simp add: Let_def)
qed

subsection \<open>\<^verbatim>\<open>random_distribution\<close> and \<^verbatim>\<open>random_joint_distribution\<close>\<close>

text \<open>
  Claim C5.  Let \<open>g\<close> be the supplied generator, or the default one when none is supplied.
  For every \<open>n\<close>: when \<^verbatim>\<open>uniform_distribution(n)\<close> returns an object, \<^verbatim>\<open>random_distribution(n, prng)\<close>
  returns that object with its probability vector replaced by the Dirichlet draw of \<open>g\<close>
  for the all-ones vector whose length is the outcome count, and nothing else changed
  (same outcomes, class and base); when \<^verbatim>\<open>uniform_distribution(n)\<close> raises, so does
  \<^verbatim>\<open>random_distribution(n, prng)\<close>, with the same error.  \<^verbatim>\<open>random_joint_distribution\<close> is the
  same over \<^verbatim>\<open>uniform_joint_distribution(word_length, alphabet_size)\<close>.
\<close>

theorem random_distribution_draw:
  fixes dirichlet :: "'g \<Rightarrow> real list \<Rightarrow> real list \<times> 'g"
  assumes "g = (case prng of None \<Rightarrow> default_prng | Some g0 \<Rightarrow> g0)"
  shows "(uniform_distribution validate h n = Inr (a, h') \<longrightarrow>
            random_distribution validate dirichlet default_prng h n prng =
              Inr (a, h'[a := (h' ! a)\<lparr>pmf :=
                     fst (dirichlet g (replicate (length (outcomes (h' ! a))) 1))\<rparr>],
                   snd (dirichlet g (replicate (length (outcomes (h' ! a))) 1)))
            \<and> a < length h')
       \<and> (uniform_distribution validate h n = Inl e \<longrightarrow>
            random_distribution validate dirichlet default_prng h n prng = Inl e)
       \<and> (uniform_joint_distribution validate h L k = Inr (a, h') \<longrightarrow>
            random_joint_distribution validate dirichlet default_prng h L k prng =
              Inr (a, h'[a := (h' ! a)\<lparr>pmf :=
                     fst (dirichlet g (replicate (length (outcomes (h' ! a))) 1))\<rparr>],
                   snd (dirichlet g (replicate (length (outcomes (h' ! a))) 1)))
            \<and> a < length h')
       \<and> (uniform_joint_distribution validate h L k = Inl e \<longrightarrow>
            random_joint_distribution validate dirichlet default_prng h L k prng = Inl e)"
proof (intro conjI impI)
  assume u: "uniform_distribution validate h n = Inr (a, h')"
  then show "a < length h'" by (auto dest: uniform_distribution_alloc)
  with u assms show "random_distribution validate dirichlet default_prng h n prng =
              Inr (a, h'[a := (h' ! a)\<lparr>pmf :=
                     fst (dirichlet g (replicate (length (outcomes (h' ! a))) 1))\<rparr>],
                   snd (dirichlet g (replicate (length (outcomes (h' ! a))) 1)))"
    by (simp add: random_distribution_def deref_def split_beta Let_def)
next
  assume "uniform_distribution validate h n = Inl e"
  then show "random_distribution validate dirichlet default_prng h n prng = Inl e"
    by (simp add: random_distribution_def)
next
  assume u: "uniform_joint_distribution validate h L k = Inr (a, h')"
  then show "a < length h'" by (auto dest: uniform_joint_distribution_alloc)
  with u assms show "random_joint_distribution validate dirichlet default_prng h L k prng =
              Inr (a, h'[a := (h' ! a)\<lparr>pmf :=
                     fst (dirichlet g (replicate (length (outcomes (h' ! a))) 1))\<rparr>],
                   snd (dirichlet g (replicate (length (outcomes (h' ! a))) 1)))"
    by (simp add: random_joint_distribution_def deref_def split_beta Let_def)
next
  assume "uniform_joint_distribution validate h L k = Inl e"
  then show "random_joint_distribution validate dirichlet default_prng h L k prng = Inl e"
    by (simp add: random_joint_distribution_def)
qed

theorem random_distribution_draw_witness:
  "random_distribution strict_validate corner_draw 0 [] (PInt 3) None =
     Inr (0, [\<lparr>cls = Distribution, outcomes = [PInt 0, PInt 1, PInt 2],
                pmf = [1, 0, 0], get_base = Linear\<rparr>], 1)
   \<and> random_distribution strict_validate corner_draw 0 [] (PInt 0) None = Inl ZeroDivisionError
   \<and> random_joint_distribution strict_validate corner_draw 0 [] 2 (PInt 2) (Some 5) =
     Inr (0, [\<lparr>cls = JointDistribution,
                outcomes = [PTuple [PInt 0, PInt 0], PTuple [PInt 0, PInt 1],
                            PTuple [PInt 1, PInt 0], PTuple [PInt 1, PInt 1]],
                pmf = [1, 0, 0, 0], get_base = Linear\<rparr>], 6)
   \<and> random_joint_distribution strict_validate corner_draw 0 [] 2 (PList []) (Some 5) =
     Inl (TypeError ''word_length does not match number of rvs.'')"
proof -
  have u: "uniform_distribution strict_validate [] (PInt 3) =
     Inr (0, [\<lparr>cls = Distribution, outcomes = [PInt 0, PInt 1, PInt 2],
                pmf = [1 / 3, 1 / 3, 1 / 3], get_base = Linear\<rparr>])"
    by (simp add: uniform_distribution_def new_dist_def strict_validate_def
        numeral_3_eq_3 upto_rec1)
  have z: "uniform_distribution strict_validate [] (PInt 0) = Inl ZeroDivisionError"
    by (simp add: uniform_distribution_def)
  have r4: "replicate 4 y = [y, y, y, y]" for y :: "'b"
    by (simp add: numeral_eq_Suc)
  have j: "uniform_joint_distribution strict_validate [] 2 (PInt 2) =
     Inr (0, [\<lparr>cls = JointDistribution,
                outcomes = [PTuple [PInt 0, PInt 0], PTuple [PInt 0, PInt 1],
                            PTuple [PInt 1, PInt 0], PTuple [PInt 1, PInt 1]],
                pmf = [1 / 4, 1 / 4, 1 / 4, 1 / 4], get_base = Linear\<rparr>])"
    by (simp add: uniform_joint_distribution_def new_dist_def strict_validate_def
        numeral_2_eq_2 upto_rec1 r4)
  have m: "uniform_joint_distribution strict_validate [] 2 (PList []) =
     Inl (TypeError ''word_length does not match number of rvs.'')"
    by (simp add: uniform_joint_distribution_def)
  show ?thesis
    using random_distribution_draw
        [where dirichlet = corner_draw and g = 0 and prng = None and default_prng = 0
          and validate = strict_validate and h = "[]" and n = "PInt 3" and a = 0
          and h' = "[\<lparr>cls = Distribution, outcomes = [PInt 0, PInt 1, PInt 2],
                pmf = [1 / 3, 1 / 3, 1 / 3], get_base = Linear\<rparr>]"
          and e = ZeroDivisionError and L = 2 and k = "PInt 2"]
      random_distribution_draw
        [where dirichlet = corner_draw and g = 0 and prng = None and default_prng = 0
          and validate = strict_validate and h = "[]" and n = "PInt 0" and a = 0
          and h' = "[]" and e = ZeroDivisionError and L = 2 and k = "PInt 2"]
      random_distribution_draw
        [where dirichlet = corner_draw and g = 5 and prng = "Some 5" and default_prng = 0
          and validate = strict_validate and h = "[]" and n = "PInt 3" and a = 0
          and h' = "[\<lparr>cls = JointDistribution,
                outcomes = [PTuple [PInt 0, PInt 0], PTuple [PInt 0, PInt 1],
                            PTuple [PInt 1, PInt 0], PTuple [PInt 1, PInt 1]],
                pmf = [1 / 4, 1 / 4, 1 / 4, 1 / 4], get_base = Linear\<rparr>]"
          and e = ZeroDivisionError and L = 2 and k = "PInt 2"]
      random_distribution_draw
        [where dirichlet = corner_draw and g = 5 and prng = "Some 5" and default_prng = 0
          and validate = strict_validate and h = "[]" and n = "PInt 3" and a = 0
          and h' = "[]" and e = "TypeError ''word_length does not match number of rvs.''"
          and L = 2 and k = "PList []"]
      u z j m
    by (simp add: corner_draw_def)
qed

end
